theory Spec2Isabelle
  imports Main "HOL-Library.Sublist"
begin

section \<open>Python values and exceptions\<close>

text \<open>
  The module \<^verbatim>\<open>terra_notebook_utils/drs.py\<close> works on what \<^verbatim>\<open>Response.json()\<close>
  returns: Python values decoded from JSON. \<open>JNull\<close> is Python's \<^verbatim>\<open>None\<close>, a
  \<open>JObj\<close> is a \<^verbatim>\<open>dict\<close> given by its items in insertion order (its keys are distinct
  in Python; \<open>map_of\<close> reads the first item of a key), a \<open>JArr\<close> is a \<^verbatim>\<open>list\<close>.
  A \<open>string\<close> is a list of bytes: the UTF-8 encoding of the Python \<^verbatim>\<open>str\<close>. Numbers are
  Python ints; the module computes with none of them.
\<close>

datatype json =
    JNull
  | JBool bool
  | JInt int
  | JStr string
  | JArr "json list"
  | JObj "(string \<times> json) list"

text \<open>
  Every \<^verbatim>\<open>raise\<close>, failed \<^verbatim>\<open>assert\<close> and exception of a built-in operation is a
  value. \<open>DRSResolutionError\<close> is the exception class the module declares; the others
  are Python's own, and \<open>ValidationError\<close> is jsonschema's.
\<close>

datatype error =
    DRSResolutionError string
  | RuntimeError string
  | AssertionError string
  | ValueError
  | TypeError
  | KeyError string
  | AttributeError
  | JSONDecodeError
  | ValidationError
  | ExternalError string

definition ebind :: "error + 'a \<Rightarrow> ('a \<Rightarrow> error + 'b) \<Rightarrow> error + 'b" where
  "ebind m f = (case m of Inl e \<Rightarrow> Inl e | Inr x \<Rightarrow> f x)"

text \<open>Truth value of a Python value, as \<^verbatim>\<open>or\<close>, \<^verbatim>\<open>not\<close> and \<^verbatim>\<open>if\<close> test it.\<close>

fun py_truthy :: "json \<Rightarrow> bool" where
  "py_truthy JNull = False"
| "py_truthy (JBool b) = b"
| "py_truthy (JInt i) = (i \<noteq> 0)"
| "py_truthy (JStr s) = (s \<noteq> [])"
| "py_truthy (JArr xs) = (xs \<noteq> [])"
| "py_truthy (JObj kvs) = (kvs \<noteq> [])"

text \<open>
  \<^verbatim>\<open>k in v\<close> for a string \<open>k\<close>: a key test on a dict, a membership test on a list,
  a substring test on a string, a \<^verbatim>\<open>TypeError\<close> on \<^verbatim>\<open>None\<close>, a bool or a number.
\<close>

fun py_in :: "string \<Rightarrow> json \<Rightarrow> error + bool" where
  "py_in k (JObj kvs) = Inr (map_of kvs k \<noteq> None)"
| "py_in k (JArr xs) = Inr (JStr k \<in> set xs)"
| "py_in k (JStr s) = Inr (sublist k s)"
| "py_in k JNull = Inl TypeError"
| "py_in k (JBool b) = Inl TypeError"
| "py_in k (JInt i) = Inl TypeError"

text \<open>\<^verbatim>\<open>v[k]\<close> for a string \<open>k\<close>: only a dict can be indexed by a string.\<close>

fun py_getitem :: "json \<Rightarrow> string \<Rightarrow> error + json" where
  "py_getitem (JObj kvs) k = (case map_of kvs k of None \<Rightarrow> Inl (KeyError k) | Some x \<Rightarrow> Inr x)"
| "py_getitem (JArr xs) k = Inl TypeError"
| "py_getitem (JStr s) k = Inl TypeError"
| "py_getitem JNull k = Inl TypeError"
| "py_getitem (JBool b) k = Inl TypeError"
| "py_getitem (JInt i) k = Inl TypeError"

text \<open>\<^verbatim>\<open>v.get(k)\<close>: a method of dicts only; \<^verbatim>\<open>None\<close> for a missing key.\<close>

fun py_get :: "json \<Rightarrow> string \<Rightarrow> error + json" where
  "py_get (JObj kvs) k = Inr (case map_of kvs k of None \<Rightarrow> JNull | Some x \<Rightarrow> x)"
| "py_get (JArr xs) k = Inl AttributeError"
| "py_get (JStr s) k = Inl AttributeError"
| "py_get JNull k = Inl AttributeError"
| "py_get (JBool b) k = Inl AttributeError"
| "py_get (JInt i) k = Inl AttributeError"

text \<open>
  The elements a \<^verbatim>\<open>for\<close> loop visits: the items of a list, the keys of a dict, the
  characters of a string (here its bytes, one string each).
\<close>

fun py_iter :: "json \<Rightarrow> error + json list" where
  "py_iter (JArr xs) = Inr xs"
| "py_iter (JObj kvs) = Inr (map (\<lambda>kv. JStr (fst kv)) kvs)"
| "py_iter (JStr s) = Inr (map (\<lambda>c. JStr [c]) s)"
| "py_iter JNull = Inl TypeError"
| "py_iter (JBool b) = Inl TypeError"
| "py_iter (JInt i) = Inl TypeError"

text \<open>\<^verbatim>\<open>v.startswith(p)\<close>: a method of strings only.\<close>

fun py_startswith :: "json \<Rightarrow> string \<Rightarrow> error + bool" where
  "py_startswith (JStr s) p = Inr (prefix p s)"
| "py_startswith (JArr xs) p = Inl AttributeError"
| "py_startswith (JObj kvs) p = Inl AttributeError"
| "py_startswith JNull p = Inl AttributeError"
| "py_startswith (JBool b) p = Inl AttributeError"
| "py_startswith (JInt i) p = Inl AttributeError"

text \<open>\<^verbatim>\<open>s.split(c, 1)\<close>: one or two parts, cut at the first \<open>c\<close>.\<close>

definition split1 :: "char \<Rightarrow> string \<Rightarrow> string list" where
  "split1 c s =
     (if c \<in> set s
      then [takeWhile (\<lambda>x. x \<noteq> c) s, tl (dropWhile (\<lambda>x. x \<noteq> c) s)]
      else [s])"

text \<open>\<^verbatim>\<open>s.rsplit(c, 1)\<close>: one or two parts, cut at the last \<open>c\<close>.\<close>

definition rsplit1 :: "char \<Rightarrow> string \<Rightarrow> string list" where
  "rsplit1 c s =
     (if c \<in> set s
      then [rev (tl (dropWhile (\<lambda>x. x \<noteq> c) (rev s))), rev (takeWhile (\<lambda>x. x \<noteq> c) (rev s))]
      else [s])"

text \<open>Unpacking a list into two names: \<^verbatim>\<open>a, b = parts\<close>.\<close>

definition unpack2 :: "'a list \<Rightarrow> error + 'a \<times> 'a" where
  "unpack2 parts = (case parts of [a, b] \<Rightarrow> Inr (a, b) | _ \<Rightarrow> Inl ValueError)"

section \<open>URL parsing\<close>

text \<open>
  Modelled from the spec: the constant \<^verbatim>\<open>_GS_SCHEMA\<close> is imported from the package's
  \<^verbatim>\<open>__init__\<close>, which is not among the sources. The spec calls it the storage scheme
  and writes it \<^verbatim>\<open>gs://\<close> in every example.
\<close>

definition GS_SCHEMA :: string where
  "GS_SCHEMA = ''gs://''"

definition parse_gs_url :: "string \<Rightarrow> error + string \<times> string" where
  "parse_gs_url gs_url =
     (if prefix GS_SCHEMA gs_url
      then unpack2 (split1 CHR ''/'' (drop (length GS_SCHEMA) gs_url))
      else Inl (RuntimeError
             (''Invalid gs url schema.  '' @ gs_url @ '' does not start with '' @ GS_SCHEMA)))"

definition bucket_name_and_key :: "string \<Rightarrow> error + string \<times> string" where
  "bucket_name_and_key gs_url =
     (if \<not> prefix ''gs://'' gs_url then Inl (AssertionError [])
      else
        let parts = split1 CHR ''/'' (drop 5 gs_url) in
        if length parts \<le> 1 then Inr (parts ! 0, [])
        else if parts ! 1 = [] then Inr (parts ! 0, [])
        else unpack2 parts)"


section \<open>Normalising a resolver response\<close>

text \<open>
  \<^verbatim>\<open>DRSInfo\<close> is a named tuple without field types: each field holds whatever
  Python value the response gave, \<open>JNull\<close> where \<^verbatim>\<open>dict.get\<close> found nothing.
\<close>

record DRSInfo =
  credentials :: json
  access_url :: json
  bucket_name :: json
  key :: json
  name :: json
  size_field :: json
  updated :: json

definition get_drs_gs_creds :: "json \<Rightarrow> error + json" where
  "get_drs_gs_creds response =
     ebind (py_get response ''googleServiceAccount'') (\<lambda>service_account_info.
       if service_account_info \<noteq> JNull then py_getitem service_account_info ''data''
       else Inr JNull)"

text \<open>
  The loop of \<^verbatim>\<open>_drs_info_from_martha_v2\<close> over \<^verbatim>\<open>data_object['urls']\<close>: the
  result is \<^verbatim>\<open>data_url\<close> when the loop ends, \<open>None\<close> while it is still \<^verbatim>\<open>None\<close>.
  The \<^verbatim>\<open>and\<close> reads \<^verbatim>\<open>url_info['url']\<close> only when the key is there.
\<close>

fun find_gs_url :: "json list \<Rightarrow> error + string option" where
  "find_gs_url [] = Inr None"
| "find_gs_url (url_info # rest) =
     ebind (py_in ''url'' url_info) (\<lambda>has_url.
       if has_url then
         ebind (py_getitem url_info ''url'') (\<lambda>u.
         ebind (py_startswith u GS_SCHEMA) (\<lambda>starts.
           if starts then (case u of JStr s \<Rightarrow> Inr (Some s) | _ \<Rightarrow> Inl AttributeError)
           else find_gs_url rest))
       else find_gs_url rest)"

definition no_gs_url_msg :: "string \<Rightarrow> string" where
  "no_gs_url_msg drs_url = ''No GS url found for DRS uri '' @ [CHR 0x27] @ drs_url @ [CHR 0x27]"

definition no_metadata_msg :: "string \<Rightarrow> string" where
  "no_metadata_msg drs_url =
     ''No metadata was returned for DRS uri '' @ [CHR 0x27] @ drs_url @ [CHR 0x27]"

definition drs_info_from_martha_v2 :: "string \<Rightarrow> json \<Rightarrow> error + DRSInfo" where
  "drs_info_from_martha_v2 drs_url drs_data =
     ebind (py_getitem drs_data ''dos'') (\<lambda>dos.
     ebind (py_in ''data_object'' dos) (\<lambda>has_data_object.
       if has_data_object then
         ebind (py_getitem dos ''data_object'') (\<lambda>data_object.
         ebind (py_in ''urls'' data_object) (\<lambda>has_urls.
         ebind (if \<not> has_urls then Inl (DRSResolutionError (no_gs_url_msg drs_url))
                else
                  ebind (py_getitem data_object ''urls'') (\<lambda>urls.
                  ebind (py_iter urls) (\<lambda>url_infos.
                  ebind (find_gs_url url_infos) (\<lambda>data_url.
                    case data_url of
                      None \<Rightarrow> Inl (DRSResolutionError (no_gs_url_msg drs_url))
                    | Some u \<Rightarrow> Inr u)))) (\<lambda>data_url.
         ebind (parse_gs_url data_url) (\<lambda>(bucket, object_key).
         ebind (get_drs_gs_creds drs_data) (\<lambda>creds.
         ebind (py_get data_object ''name'') (\<lambda>nm.
         ebind (py_get data_object ''size'') (\<lambda>sz.
         ebind (py_get data_object ''updated'') (\<lambda>upd.
           Inr \<lparr>credentials = creds, access_url = JNull, bucket_name = JStr bucket,
                key = JStr object_key, name = nm, size_field = sz, updated = upd\<rparr>))))))))
       else Inl (DRSResolutionError (no_metadata_msg drs_url))))"

definition drs_info_from_martha_v3 :: "string \<Rightarrow> json \<Rightarrow> error + DRSInfo" where
  "drs_info_from_martha_v3 drs_url drs_data =
     ebind (py_in ''gsUri'' drs_data) (\<lambda>has_gs_uri.
       if \<not> has_gs_uri then Inl (DRSResolutionError (no_gs_url_msg drs_url))
       else
         ebind (get_drs_gs_creds drs_data) (\<lambda>creds.
         ebind (py_get drs_data ''accessUrl'') (\<lambda>au.
         ebind (py_get drs_data ''bucket'') (\<lambda>bk.
         ebind (py_get drs_data ''name'') (\<lambda>ky.
         ebind (py_get drs_data ''fileName'') (\<lambda>nm.
         ebind (py_get drs_data ''size'') (\<lambda>sz.
         ebind (py_get drs_data ''timeUpdated'') (\<lambda>upd.
           Inr \<lparr>credentials = creds, access_url = au, bucket_name = bk, key = ky,
                name = nm, size_field = sz, updated = upd\<rparr>))))))))"


section \<open>The world outside the module\<close>

text \<open>
  The module calls a token provider, an HTTP client, the logger, the file system and the
  copy client. What they do is not in the module: each is a parameter (a field of \<open>env\<close>),
  as are the constants the module imports from its package (\<^verbatim>\<open>MARTHA_URL\<close>,
  \<^verbatim>\<open>TERRA_DEPLOYMENT_ENV\<close>, \<^verbatim>\<open>WORKSPACE_NAME\<close>, \<^verbatim>\<open>WORKSPACE_GOOGLE_PROJECT\<close>),
  and what the module asks of them is recorded, in order, in the \<open>trace\<close> of the world.
  An answer may depend on everything that happened before, so the same request can be
  answered differently the second time.
\<close>

datatype level = DEBUG | INFO | WARNING

datatype indicator = notebook_bar | bar | log

type_synonym headers = "(string \<times> string) list"

text \<open>
  A \<^verbatim>\<open>requests.Response\<close>: \<open>json_body\<close> is what \<^verbatim>\<open>resp.json()\<close> returns, \<open>None\<close> when
  the body is not JSON and \<^verbatim>\<open>resp.json()\<close> raises.
\<close>

record response =
  status_code :: int
  content :: string
  json_body :: "json option"

text \<open>
  Blob references. \<open>GSBlob\<close> is the constructor called with bucket, key, credentials and
  billing project, \<open>GSBlob_plain\<close> the one called with bucket and key only;
  \<open>BlobForUrl\<close> is what \<^verbatim>\<open>copy_client.blob_for_url\<close> gives for a path or URL.
\<close>

datatype blob =
    GSBlob json json json "string option"
  | GSBlob_plain json json
  | BlobForUrl string

record job =
  job_drs_uri :: json
  job_dst :: json
  job_multipart_threshold :: int
  job_indicator_type :: indicator
  job_workspace :: "string option"
  job_workspace_namespace :: "string option"

datatype event =
    GetAccessToken
  | HttpPost string headers json
  | HttpPut string headers
  | Log level string
  | QueuePut job
  | DoCopy blob blob int indicator

text \<open>
  The arguments of a call of \<^verbatim>\<open>enable_requester_pays\<close> as the caller writes them: the
  positional ones in order, then the keyword ones with their names, in the order they are
  written. \<^verbatim>\<open>functools.lru_cache\<close> makes its key of exactly this (the positional values,
  a mark, then each keyword name and value), before the arguments are bound to the
  parameters: the same values passed in another form are another key.
\<close>

type_synonym call_args = "string option list \<times> (string \<times> string option) list"

text \<open>
  \<open>rp_cache\<close> is the table of \<^verbatim>\<open>@lru_cache()\<close> on \<^verbatim>\<open>enable_requester_pays\<close>: the
  keys it holds, the most recently used first.
\<close>

record world =
  trace :: "event list"
  rp_cache :: "call_args list"

type_synonym 'a prog = "world \<Rightarrow> (error + 'a) \<times> world"

record env =
  MARTHA_URL :: string
  TERRA_DEPLOYMENT_ENV :: string
  WORKSPACE_NAME :: "string option"
  WORKSPACE_GOOGLE_PROJECT :: "string option"
  get_access_token :: "event list \<Rightarrow> error + string"
  http_post :: "event list \<Rightarrow> string \<Rightarrow> headers \<Rightarrow> json \<Rightarrow> error + response"
  http_put :: "event list \<Rightarrow> string \<Rightarrow> headers \<Rightarrow> error + response"
  url_quote :: "string \<Rightarrow> string"
  py_repr :: "json \<Rightarrow> string"
  path_sep :: string
  path_isdir :: "event list \<Rightarrow> string \<Rightarrow> bool"
  path_abspath :: "string \<Rightarrow> string"
  path_join :: "string \<Rightarrow> string \<Rightarrow> string"
  blob_for_url :: "string \<Rightarrow> error + blob"
  do_copy :: "event list \<Rightarrow> blob \<Rightarrow> blob \<Rightarrow> int \<Rightarrow> indicator \<Rightarrow> error + unit"
  client_multipart_threshold :: int
  client_exit :: "world \<Rightarrow> (error + unit) \<times> world"

definition sreturn :: "'a \<Rightarrow> 'a prog" where
  "sreturn x = (\<lambda>w. (Inr x, w))"

definition sthrow :: "error \<Rightarrow> 'a prog" where
  "sthrow e = (\<lambda>w. (Inl e, w))"

definition lift :: "error + 'a \<Rightarrow> 'a prog" where
  "lift r = (\<lambda>w. (r, w))"

definition sbind :: "'a prog \<Rightarrow> ('a \<Rightarrow> 'b prog) \<Rightarrow> 'b prog" where
  "sbind m f = (\<lambda>w. case m w of (Inl e, w') \<Rightarrow> (Inl e, w') | (Inr x, w') \<Rightarrow> f x w')"

definition emit :: "event \<Rightarrow> unit prog" where
  "emit ev = (\<lambda>w. (Inr (), w\<lparr>trace := trace w @ [ev]\<rparr>))"

text \<open>A call of a collaborator: the request is recorded whether or not it succeeds.\<close>

definition call :: "event \<Rightarrow> (event list \<Rightarrow> error + 'a) \<Rightarrow> 'a prog" where
  "call ev answer = (\<lambda>w. (answer (trace w), w\<lparr>trace := trace w @ [ev]\<rparr>))"

section \<open>Formatting\<close>

text \<open>\<^verbatim>\<open>str(n)\<close> of a Python int.\<close>

fun str_nat :: "nat \<Rightarrow> string" where
  "str_nat n =
     (if n < 10 then [''0123456789'' ! n]
      else str_nat (n div 10) @ [''0123456789'' ! (n mod 10)])"

definition str_int :: "int \<Rightarrow> string" where
  "str_int i = (if i < 0 then CHR ''-'' # str_nat (nat (- i)) else str_nat (nat i))"

text \<open>
  What an f-string puts for a value: a string as it is, \<^verbatim>\<open>None\<close>, a bool and an int by
  their \<^verbatim>\<open>str\<close>; the \<^verbatim>\<open>repr\<close> of a list or a dict is Python's own and a parameter.
\<close>

definition py_str :: "(json \<Rightarrow> string) \<Rightarrow> json \<Rightarrow> string" where
  "py_str repr v =
     (case v of
        JStr s \<Rightarrow> s
      | JNull \<Rightarrow> ''None''
      | JBool b \<Rightarrow> (if b then ''True'' else ''False'')
      | JInt i \<Rightarrow> str_int i
      | _ \<Rightarrow> repr v)"

definition opt_str :: "string option \<Rightarrow> string" where
  "opt_str s = (case s of None \<Rightarrow> ''None'' | Some x \<Rightarrow> x)"

section \<open>The resolver client\<close>

definition response_json :: "response \<Rightarrow> error + json" where
  "response_json resp = (case json_body resp of None \<Rightarrow> Inl JSONDecodeError | Some v \<Rightarrow> Inr v)"

definition error_details :: "(json \<Rightarrow> string) \<Rightarrow> json \<Rightarrow> error + string" where
  "error_details repr rj =
     ebind (py_in ''response'' rj) (\<lambda>has_response.
       if has_response then
         ebind (py_getitem rj ''response'') (\<lambda>r.
         ebind (py_in ''text'' r) (\<lambda>has_text.
           if has_text then
             ebind (py_getitem r ''text'') (\<lambda>t. Inr (''Error: '' @ py_str repr t))
           else Inr []))
       else Inr [])"

definition unexpected_response_msg :: "int \<Rightarrow> string \<Rightarrow> string" where
  "unexpected_response_msg status details =
     ''Unexpected response while resolving DRS URI. Expected status 200, got ''
       @ str_int status @ ''. '' @ details"

definition bearer_headers :: "string \<Rightarrow> headers" where
  "bearer_headers access_token =
     [(''authorization'', ''Bearer '' @ access_token), (''content-type'', ''application/json'')]"

definition resolving_msg :: "env \<Rightarrow> string \<Rightarrow> string" where
  "resolving_msg e drs_url =
     ''Resolving DRS uri '' @ [CHR 0x27] @ drs_url @ [CHR 0x27] @ '' through '' @ [CHR 0x27]
       @ MARTHA_URL e @ [CHR 0x27] @ ''.''"

definition get_drs :: "env \<Rightarrow> string \<Rightarrow> response prog" where
  "get_drs e drs_url =
     sbind (call GetAccessToken (get_access_token e)) (\<lambda>access_token.
     sbind (emit (Log DEBUG (resolving_msg e drs_url))) (\<lambda>_.
     sbind (call (HttpPost (MARTHA_URL e) (bearer_headers access_token) (JObj [(''url'', JStr drs_url)]))
              (\<lambda>t. http_post e t (MARTHA_URL e) (bearer_headers access_token)
                      (JObj [(''url'', JStr drs_url)]))) (\<lambda>resp.
       if 200 \<noteq> status_code resp then
         sbind (emit (Log WARNING (content resp))) (\<lambda>_.
         sbind (lift (response_json resp)) (\<lambda>rj.
         sbind (lift (error_details (py_repr e) rj)) (\<lambda>details.
           sthrow (DRSResolutionError (unexpected_response_msg (status_code resp) details)))))
       else sreturn resp)))"

definition expected_drs_msg :: string where
  "expected_drs_msg =
     ''Expected DRS URI of the form '' @ [CHR 0x27] @ ''drs://...'' @ [CHR 0x27] @ '', got ''
       @ [CHR 0x27] @ ''{drs_url}'' @ [CHR 0x27]"

definition get_drs_info :: "env \<Rightarrow> string \<Rightarrow> DRSInfo prog" where
  "get_drs_info e drs_url =
     (if \<not> prefix ''drs://'' drs_url then sthrow (AssertionError expected_drs_msg)
      else
        sbind (get_drs e drs_url) (\<lambda>resp.
        sbind (lift (response_json resp)) (\<lambda>drs_data.
        sbind (lift (py_in ''dos'' drs_data)) (\<lambda>has_dos.
          if has_dos then lift (drs_info_from_martha_v2 drs_url drs_data)
          else lift (drs_info_from_martha_v3 drs_url drs_data)))))"

definition get_drs_blob :: "env \<Rightarrow> string + DRSInfo \<Rightarrow> string option \<Rightarrow> blob prog" where
  "get_drs_blob e drs_url_or_info workspace_namespace =
     sbind (case drs_url_or_info of
              Inl drs_url \<Rightarrow> get_drs_info e drs_url
            | Inr info \<Rightarrow> sreturn info) (\<lambda>info.
       sreturn (GSBlob (bucket_name info) (key info) (credentials info) workspace_namespace))"


section \<open>Destinations\<close>

text \<open>\<^verbatim>\<open>s.endswith(p)\<close> of a string.\<close>

definition endswith :: "string \<Rightarrow> string \<Rightarrow> bool" where
  "endswith s p = prefix (rev p) (rev s)"

text \<open>
  \<^verbatim>\<open>info.name or info.key.rsplit("/", 1)[-1]\<close>: the name when it is truthy; otherwise
  the key is asked for \<^verbatim>\<open>rsplit\<close>, a method of strings only.
\<close>

definition basename_of :: "DRSInfo \<Rightarrow> error + json" where
  "basename_of info =
     (if py_truthy (name info) then Inr (name info)
      else (case key info of
              JStr k \<Rightarrow> Inr (JStr (last (rsplit1 CHR ''/'' k)))
            | _ \<Rightarrow> Inl AttributeError))"

definition resolve_bucket_target :: "(json \<Rightarrow> string) \<Rightarrow> string \<Rightarrow> DRSInfo \<Rightarrow> error + string \<times> json" where
  "resolve_bucket_target repr url info =
     ebind (bucket_name_and_key url) (\<lambda>(bucket, pfx).
       if pfx = [] \<or> endswith pfx ''/'' then
         let pfx' = (if endswith pfx ''/'' then butlast pfx else pfx) in
         ebind (basename_of info) (\<lambda>basename.
           Inr (bucket, if pfx' \<noteq> [] then JStr (pfx' @ ''/'' @ py_str repr basename) else basename))
       else Inr (bucket, JStr pfx))"

definition resolve_local_target :: "env \<Rightarrow> string \<Rightarrow> DRSInfo \<Rightarrow> string prog" where
  "resolve_local_target e filepath info =
     (\<lambda>w.
        if endswith filepath (path_sep e) \<or> path_isdir e (trace w) filepath then
          (case basename_of info of
             Inl err \<Rightarrow> (Inl err, w)
           | Inr (JStr filename) \<Rightarrow> (Inr (path_join e (path_abspath e filepath) filename), w)
           | Inr _ \<Rightarrow> (Inl TypeError, w))
        else (Inr filepath, w))"

section \<open>The copy worker\<close>

definition do_copy_drs ::
  "env \<Rightarrow> string \<Rightarrow> string \<Rightarrow> int \<Rightarrow> indicator \<Rightarrow> string option \<Rightarrow> string option \<Rightarrow> unit prog" where
  "do_copy_drs e drs_uri dst multipart_threshold indicator_type workspace_name workspace_namespace =
     sbind (get_drs_info e drs_uri) (\<lambda>src_info.
     sbind (get_drs_blob e (Inr src_info) workspace_namespace) (\<lambda>src_blob.
     sbind (if prefix ''gs://'' dst then
              sbind (lift (resolve_bucket_target (py_repr e) dst src_info)) (\<lambda>(bucket, k).
                sreturn (GSBlob_plain (JStr bucket) k))
            else
              sbind (get_drs_info e drs_uri) (\<lambda>info.
              sbind (resolve_local_target e dst info) (\<lambda>target.
                lift (blob_for_url e target)))) (\<lambda>dst_blob.
       call (DoCopy src_blob dst_blob multipart_threshold indicator_type)
         (\<lambda>t. do_copy e t src_blob dst_blob multipart_threshold indicator_type))))"

section \<open>Requester pays\<close>

definition rawls_url :: "env \<Rightarrow> string \<Rightarrow> string option \<Rightarrow> string" where
  "rawls_url e workspace_name workspace_namespace =
     ''https://rawls.dsde-'' @ TERRA_DEPLOYMENT_ENV e @ ''.broadinstitute.org/api/workspaces/''
       @ opt_str workspace_namespace @ ''/'' @ url_quote e workspace_name
       @ ''/enableRequesterPaysForLinkedServiceAccounts''"

definition requester_pays_warning :: "string \<Rightarrow> string option \<Rightarrow> int \<Rightarrow> string \<Rightarrow> string" where
  "requester_pays_warning workspace_name workspace_namespace status url =
     ''Failed to init requester pays for workspace '' @ opt_str workspace_namespace @ ''/''
       @ workspace_name @ '': Expected '' @ [CHR 0x27] @ ''204'' @ [CHR 0x27] @ '', got ''
       @ [CHR 0x27] @ str_int status @ [CHR 0x27] @ '' for '' @ [CHR 0x27] @ url @ [CHR 0x27]
       @ ''. You will not be able to access DRS URIs that interact with requester pays buckets.''"

definition enabling_msg :: string where
  "enabling_msg =
     ''Enabling requester pays for your workspace. This will only take a few seconds...''"

text \<open>The body of \<^verbatim>\<open>enable_requester_pays\<close>, as it runs when the cache has no entry.\<close>

definition enable_requester_pays_body :: "env \<Rightarrow> string option \<Rightarrow> string option \<Rightarrow> unit prog" where
  "enable_requester_pays_body e workspace_name workspace_namespace =
     (case workspace_name of
        None \<Rightarrow> sthrow (AssertionError [])
      | Some nm \<Rightarrow>
          if nm = [] then sthrow (AssertionError [])
          else
            sbind (emit (Log INFO enabling_msg)) (\<lambda>_.
            sbind (call GetAccessToken (get_access_token e)) (\<lambda>access_token.
            sbind (call (HttpPut (rawls_url e nm workspace_namespace) (bearer_headers access_token))
                     (\<lambda>t. http_put e t (rawls_url e nm workspace_namespace)
                             (bearer_headers access_token))) (\<lambda>resp.
              if status_code resp \<noteq> 204 then
                emit (Log WARNING (requester_pays_warning nm workspace_namespace (status_code resp)
                        (rawls_url e nm workspace_namespace)))
              else sreturn ()))))"

text \<open>
  Binding the arguments of a call to the two parameters, as Python does when the function
  itself is called: positional arguments fill \<^verbatim>\<open>workspace_name\<close> and then
  \<^verbatim>\<open>workspace_namespace\<close>, keyword arguments go by name, and a parameter that gets
  nothing takes its default, \<^verbatim>\<open>WORKSPACE_NAME\<close> or \<^verbatim>\<open>WORKSPACE_GOOGLE_PROJECT\<close>. A third
  positional argument, an unknown or repeated keyword, and a parameter given twice are a
  \<^verbatim>\<open>TypeError\<close>.
\<close>

definition bind_args :: "env \<Rightarrow> call_args \<Rightarrow> error + string option \<times> string option" where
  "bind_args e a =
     (let ps = fst a; ks = snd a in
      if 2 < length ps then Inl TypeError
      else if \<not> distinct (map fst ks) then Inl TypeError
      else if \<not> list_all (\<lambda>k. k = ''workspace_name'' \<or> k = ''workspace_namespace'') (map fst ks)
        then Inl TypeError
      else if 1 \<le> length ps \<and> map_of ks ''workspace_name'' \<noteq> None then Inl TypeError
      else if 2 \<le> length ps \<and> map_of ks ''workspace_namespace'' \<noteq> None then Inl TypeError
      else
        Inr (if 1 \<le> length ps then ps ! 0
             else (case map_of ks ''workspace_name'' of Some v \<Rightarrow> v | None \<Rightarrow> WORKSPACE_NAME e),
             if 2 \<le> length ps then ps ! 1
             else (case map_of ks ''workspace_namespace'' of
                     Some v \<Rightarrow> v
                   | None \<Rightarrow> WORKSPACE_GOOGLE_PROJECT e)))"

text \<open>
  \<^verbatim>\<open>@lru_cache()\<close>: \<^verbatim>\<open>maxsize\<close> is left at its default, 128. The wrapper makes the key
  of the call's arguments. A call whose key is in the table returns the stored result
  (here \<^verbatim>\<open>None\<close>) without running the function, and makes the entry the most recent.
  Otherwise the function is called with the arguments; if it returns, the key is stored
  as the most recent entry and the least recent one is dropped when the table is full; if
  it raises (also when the arguments do not bind), nothing is stored.
\<close>

definition lru_maxsize :: nat where
  "lru_maxsize = 128"

definition enable_requester_pays :: "env \<Rightarrow> call_args \<Rightarrow> unit prog" where
  "enable_requester_pays e a =
     (\<lambda>w.
        if a \<in> set (rp_cache w) then
          (Inr (), w\<lparr>rp_cache := a # remove1 a (rp_cache w)\<rparr>)
        else
          (case bind_args e a of
             Inl err \<Rightarrow> (Inl err, w)
           | Inr (workspace_name, workspace_namespace) \<Rightarrow>
               (case enable_requester_pays_body e workspace_name workspace_namespace w of
                  (Inl err, w') \<Rightarrow> (Inl err, w')
                | (Inr u, w') \<Rightarrow>
                    (Inr (), w'\<lparr>rp_cache := take lru_maxsize (a # rp_cache w')\<rparr>))))"

section \<open>Batch copy\<close>

text \<open>
  \<^verbatim>\<open>manifest_schema\<close> uses four keywords of JSON Schema. \<open>validates\<close> is what
  \<^verbatim>\<open>jsonschema.validate\<close> decides for them: \<^verbatim>\<open>type\<close> names the Python type of the
  instance, \<^verbatim>\<open>items\<close> constrains the elements of a list, \<^verbatim>\<open>properties\<close> the values of
  the keys a dict has, \<^verbatim>\<open>required\<close> the keys a dict must have; a keyword for lists says
  nothing about an instance that is not a list, and likewise for dicts.
\<close>

datatype schema =
  Schema (sch_type: string) (sch_items: "schema option")
    (sch_properties: "(string \<times> schema) list") (sch_required: "string list")

definition manifest_schema :: schema where
  "manifest_schema =
     Schema ''array''
       (Some (Schema ''object'' None
          [(''drs_uri'', Schema ''string'' None [] []), (''dst'', Schema ''string'' None [] [])]
          [''drs_uri'', ''dst'']))
       [] []"

fun type_ok :: "string \<Rightarrow> json \<Rightarrow> bool" where
  "type_ok t (JArr xs) = (t = ''array'')"
| "type_ok t (JObj kvs) = (t = ''object'')"
| "type_ok t (JStr s) = (t = ''string'')"
| "type_ok t (JInt i) = (t = ''integer'' \<or> t = ''number'')"
| "type_ok t (JBool b) = (t = ''boolean'')"
| "type_ok t JNull = (t = ''null'')"

fun validates :: "schema \<Rightarrow> json \<Rightarrow> bool" where
  "validates (Schema t it props req) v =
     (type_ok t v
      \<and> (case it of
           None \<Rightarrow> True
         | Some s \<Rightarrow> (case v of JArr xs \<Rightarrow> list_all (validates s) xs | _ \<Rightarrow> True))
      \<and> (case v of
           JObj kvs \<Rightarrow>
             list_all (\<lambda>p. case map_of kvs (fst p) of None \<Rightarrow> True | Some x \<Rightarrow> validates (snd p) x) props
             \<and> list_all (\<lambda>k. map_of kvs k \<noteq> None) req
         | _ \<Rightarrow> True))"

text \<open>
  Modelled from the spec: \<^verbatim>\<open>DRSCopyClient\<close> extends \<^verbatim>\<open>copy_client.CopyClient\<close>, which is
  not among the sources. \<^verbatim>\<open>DRSCopyClient.copy\<close> is in the module: it puts the job, with
  the client's threshold, indicator and workspace, on the client's queue; the put is an
  event of the trace. Leaving the \<^verbatim>\<open>with\<close> block drains the queue and joins the workers
  (spec 4.5); what that does is the parameter \<open>client_exit\<close>.
\<close>

definition client_copy ::
  "env \<Rightarrow> indicator \<Rightarrow> string option \<Rightarrow> string option \<Rightarrow> json \<Rightarrow> json \<Rightarrow> unit prog" where
  "client_copy e indicator_type workspace workspace_namespace drs_uri dst =
     emit (QueuePut \<lparr>job_drs_uri = drs_uri, job_dst = dst,
                     job_multipart_threshold = client_multipart_threshold e,
                     job_indicator_type = indicator_type,
                     job_workspace = workspace,
                     job_workspace_namespace = workspace_namespace\<rparr>)"

fun copy_items ::
  "env \<Rightarrow> indicator \<Rightarrow> string option \<Rightarrow> string option \<Rightarrow> json list \<Rightarrow> unit prog" where
  "copy_items e indicator_type workspace workspace_namespace [] = sreturn ()"
| "copy_items e indicator_type workspace workspace_namespace (item # rest) =
     sbind (lift (py_getitem item ''drs_uri'')) (\<lambda>drs_uri.
     sbind (lift (py_getitem item ''dst'')) (\<lambda>dst.
     sbind (client_copy e indicator_type workspace workspace_namespace drs_uri dst) (\<lambda>_.
       copy_items e indicator_type workspace workspace_namespace rest)))"

definition copy_batch :: "env \<Rightarrow> json \<Rightarrow> indicator \<Rightarrow> string option \<Rightarrow> string option \<Rightarrow> unit prog" where
  "copy_batch e manifest indicator_type workspace_name workspace_namespace =
     (if \<not> validates manifest_schema manifest then sthrow ValidationError
      else
        sbind (enable_requester_pays e ([workspace_name, workspace_namespace], [])) (\<lambda>_.
          (\<lambda>w.
             case sbind (lift (py_iter manifest))
                    (copy_items e indicator_type workspace_name workspace_namespace) w of
               (Inl err, w') \<Rightarrow> (Inl err, snd (client_exit e w'))
             | (Inr u, w') \<Rightarrow> client_exit e w')))"


section \<open>Notions the properties are stated with\<close>

text \<open>
  A candidate of the legacy URL list that is a record and is not a storage URL: it has
  no \<^verbatim>\<open>url\<close>, or its \<^verbatim>\<open>url\<close> is a string that does not start with the storage scheme.
\<close>

fun other_candidate :: "json \<Rightarrow> bool" where
  "other_candidate (JObj kvs) =
     (case map_of kvs ''url'' of
        None \<Rightarrow> True
      | Some (JStr s) \<Rightarrow> \<not> prefix GS_SCHEMA s
      | Some _ \<Rightarrow> False)"
| "other_candidate _ = False"

text \<open>A flat field of a response: its value, \<open>JNull\<close> when the response does not have it.\<close>

definition flat_field :: "(string \<times> json) list \<Rightarrow> string \<Rightarrow> json" where
  "flat_field d k = (case map_of d k of None \<Rightarrow> JNull | Some x \<Rightarrow> x)"

text \<open>
  The words of the destination rule: stripping one trailing separator, adding a final
  component to a key, and the last \<^verbatim>\<open>/\<close>-separated segment of a key.
\<close>

definition strip_sep :: "string \<Rightarrow> string" where
  "strip_sep pfx = (if endswith pfx ''/'' then butlast pfx else pfx)"

definition join_key :: "string \<Rightarrow> string \<Rightarrow> string" where
  "join_key dir file = (if dir = [] then file else dir @ ''/'' @ file)"

definition last_segment :: "string \<Rightarrow> string" where
  "last_segment k = rev (takeWhile (\<lambda>x. x \<noteq> CHR ''/'') (rev k))"

text \<open>
  Counting requests in a trace: the POSTs that ask the resolver for a given identifier,
  and the PUTs to a given URL.
\<close>

fun is_resolution :: "string \<Rightarrow> event \<Rightarrow> bool" where
  "is_resolution drs_uri (HttpPost url hs body) = (body = JObj [(''url'', JStr drs_uri)])"
| "is_resolution drs_uri _ = False"

definition resolutions :: "string \<Rightarrow> event list \<Rightarrow> nat" where
  "resolutions drs_uri t = length (filter (is_resolution drs_uri) t)"




text \<open>
  A manifest as the spec asks for it: a list of records, each with a string \<^verbatim>\<open>drs_uri\<close>
  and a string \<^verbatim>\<open>dst\<close>.
\<close>

fun is_string_field :: "(string \<times> json) list \<Rightarrow> string \<Rightarrow> bool" where
  "is_string_field kvs k = (case map_of kvs k of Some (JStr s) \<Rightarrow> True | _ \<Rightarrow> False)"

fun well_formed_entry :: "json \<Rightarrow> bool" where
  "well_formed_entry (JObj kvs) = (is_string_field kvs ''drs_uri'' \<and> is_string_field kvs ''dst'')"
| "well_formed_entry _ = False"

fun well_formed_manifest :: "json \<Rightarrow> bool" where
  "well_formed_manifest (JArr items) = list_all well_formed_entry items"
| "well_formed_manifest _ = False"

subsection \<open>A concrete world, for the examples\<close>

definition current_response :: json where
  "current_response =
     JObj [(''gsUri'', JStr ''gs://bucket/dir/obj.txt''), (''bucket'', JStr ''bucket''),
           (''name'', JStr ''dir/obj.txt''), (''fileName'', JStr ''obj.txt''),
           (''size'', JInt 7), (''timeUpdated'', JStr ''2020-01-01'')]"

definition example_env :: env where
  "example_env =
     \<lparr>MARTHA_URL = ''https://martha.example/martha_v3'',
      TERRA_DEPLOYMENT_ENV = ''prod'',
      WORKSPACE_NAME = Some ''home'',
      WORKSPACE_GOOGLE_PROJECT = Some ''project'',
      get_access_token = (\<lambda>t. Inr ''token''),
      http_post = (\<lambda>t url hs body.
         Inr \<lparr>status_code = 200, content = [], json_body = Some current_response\<rparr>),
      http_put = (\<lambda>t url hs. Inr \<lparr>status_code = 204, content = [], json_body = None\<rparr>),
      url_quote = (\<lambda>s. s),
      py_repr = (\<lambda>v. []),
      path_sep = ''/'',
      path_isdir = (\<lambda>t p. False),
      path_abspath = (\<lambda>p. p),
      path_join = (\<lambda>a b. if endswith a ''/'' then a @ b else a @ ''/'' @ b),
      blob_for_url = (\<lambda>p. Inr (BlobForUrl p)),
      do_copy = (\<lambda>t src dst threshold ind. Inr ()),
      client_multipart_threshold = 1024,
      client_exit = (\<lambda>w. (Inr (), w))\<rparr>"

definition example_info :: DRSInfo where
  "example_info =
     \<lparr>credentials = JNull, access_url = JNull, bucket_name = JStr ''bucket'',
      key = JStr ''dir/obj.txt'', name = JStr ''f.txt'', size_field = JInt 7,
      updated = JStr ''2020-01-01''\<rparr>"

definition world0 :: world where
  "world0 = \<lparr>trace = [], rp_cache = []\<rparr>"

text \<open>A resolver behind a gateway that answers 502 with an HTML page.\<close>

definition bad_gateway_env :: env where
  "bad_gateway_env =
     example_env\<lparr>http_post := (\<lambda>t url hs body.
       Inr \<lparr>status_code = 502, content = ''<html>502 Bad Gateway</html>'', json_body = None\<rparr>)\<rparr>"





section \<open>Properties\<close>

subsection \<open>The sum of an error and a value\<close>

lemma ebind_simps: "ebind (Inl e) f = Inl e" "ebind (Inr x) f = f x"
  by (simp_all add: ebind_def)

subsection \<open>The two URL parsers\<close>

lemma split1_no_sep: "c \<notin> set s \<Longrightarrow> split1 c s = [s]"
  by (simp add: split1_def)

lemma split1_sep:
  "c \<in> set s \<Longrightarrow> split1 c s = [takeWhile (\<lambda>x. x \<noteq> c) s, tl (dropWhile (\<lambda>x. x \<noteq> c) s)]"
  by (simp add: split1_def)

lemma parse_gs_url_no_key:
  "prefix GS_SCHEMA u \<Longrightarrow> CHR ''/'' \<notin> set (drop (length GS_SCHEMA) u) \<Longrightarrow>
   parse_gs_url u = Inl ValueError"
  by (simp add: parse_gs_url_def split1_no_sep unpack2_def)

lemma parse_gs_url_key:
  "prefix GS_SCHEMA u \<Longrightarrow> CHR ''/'' \<in> set (drop (length GS_SCHEMA) u) \<Longrightarrow>
   parse_gs_url u = Inr (takeWhile (\<lambda>x. x \<noteq> CHR ''/'') (drop (length GS_SCHEMA) u),
                         tl (dropWhile (\<lambda>x. x \<noteq> CHR ''/'') (drop (length GS_SCHEMA) u)))"
  by (simp add: parse_gs_url_def split1_sep unpack2_def)

lemma parse_gs_url_bad_scheme:
  "\<not> prefix GS_SCHEMA u \<Longrightarrow>
   parse_gs_url u =
     Inl (RuntimeError (''Invalid gs url schema.  '' @ u @ '' does not start with '' @ GS_SCHEMA))"
  by (simp add: parse_gs_url_def)

lemma takeWhile_no_sep: "c \<notin> set s \<Longrightarrow> takeWhile (\<lambda>x. x \<noteq> c) s = s"
  by (induction s) auto

lemma dropWhile_no_sep: "c \<notin> set s \<Longrightarrow> dropWhile (\<lambda>x. x \<noteq> c) s = []"
  by (induction s) auto

lemma bucket_name_and_key_split:
  assumes "prefix ''gs://'' url"
  shows "bucket_name_and_key url =
     Inr (takeWhile (\<lambda>x. x \<noteq> CHR ''/'') (drop 5 url),
          tl (dropWhile (\<lambda>x. x \<noteq> CHR ''/'') (drop 5 url)))"
proof (cases "CHR ''/'' \<in> set (drop 5 url)")
  case True
  with assms show ?thesis
    by (simp add: bucket_name_and_key_def split1_def unpack2_def Let_def)
next
  case False
  then have "split1 CHR ''/'' (drop 5 url) = [drop 5 url]"
    by (simp add: split1_def)
  with assms show ?thesis
    by (simp only: bucket_name_and_key_def Let_def takeWhile_no_sep [OF False]
          dropWhile_no_sep [OF False]) simp
qed

lemma bucket_name_and_key_bad_scheme:
  "\<not> prefix ''gs://'' url \<Longrightarrow> bucket_name_and_key url = Inl (AssertionError [])"
  by (simp add: bucket_name_and_key_def)

text \<open>
  C3. The spec's bucket-URL parser gives the empty key to a URL with no \<^verbatim>\<open>/\<close> after the
  scheme. Of the two parsers of the module, \<^verbatim>\<open>_bucket_name_and_key\<close> does so, and
  \<^verbatim>\<open>_parse_gs_url\<close> does not: on \<^verbatim>\<open>gs://bucket\<close> the split has one part, and unpacking
  it into two names raises \<^verbatim>\<open>ValueError\<close>.
\<close>

theorem parse_gs_url_without_key:
  "parse_gs_url ''gs://bucket'' = Inl ValueError
   \<and> bucket_name_and_key ''gs://bucket'' = Inr (''bucket'', [])"
  by (simp add: parse_gs_url_def bucket_name_and_key_def GS_SCHEMA_def split1_def unpack2_def)

subsection \<open>The legacy response\<close>

lemma find_gs_url_skip:
  "list_all other_candidate pre \<Longrightarrow> find_gs_url (pre @ rest) = find_gs_url rest"
proof (induction pre)
  case Nil
  then show ?case by simp
next
  case (Cons c pre)
  then obtain kvs where c: "c = JObj kvs" and oc: "other_candidate (JObj kvs)"
    by (cases c) auto
  from Cons have IH: "find_gs_url (pre @ rest) = find_gs_url rest" by simp
  show ?case
  proof (cases "map_of kvs ''url''")
    case None
    then show ?thesis using c IH by (simp add: ebind_simps)
  next
    case (Some v)
    with oc obtain s where v: "v = JStr s" and np: "\<not> prefix GS_SCHEMA s"
      by (cases v) auto
    with Some c IH show ?thesis by (simp add: ebind_simps)
  qed
qed


lemma find_gs_url_first:
  assumes "list_all other_candidate pre" "map_of c ''url'' = Some (JStr u)" "prefix GS_SCHEMA u"
  shows "find_gs_url (pre @ JObj c # post) = Inr (Some u)"
  using assms by (simp add: find_gs_url_skip ebind_simps)

text \<open>
  C10. A legacy response with a data-object record whose URL list has, after candidates
  that are no storage URLs, a candidate whose URL starts with the storage scheme and has
  no \<^verbatim>\<open>/\<close> after it: normalisation ends in \<^verbatim>\<open>ValueError\<close>, the failed unpacking in
  \<^verbatim>\<open>_parse_gs_url\<close>, and not in \<^verbatim>\<open>DRSResolutionError\<close>.
\<close>

theorem legacy_no_key_value_error:
  assumes "map_of d ''dos'' = Some (JObj dos)"
    and "map_of dos ''data_object'' = Some (JObj dobj)"
    and "map_of dobj ''urls'' = Some (JArr (pre @ JObj c # post))"
    and "list_all other_candidate pre"
    and "map_of c ''url'' = Some (JStr u)"
    and "prefix GS_SCHEMA u"
    and "CHR ''/'' \<notin> set (drop (length GS_SCHEMA) u)"
  shows "drs_info_from_martha_v2 drs_url (JObj d) = Inl ValueError"
  using assms
  by (simp add: drs_info_from_martha_v2_def ebind_simps find_gs_url_first parse_gs_url_no_key)

theorem legacy_no_key_value_error_witness:
  "list_all other_candidate [JObj [(''url'', JStr ''s3://x'')]]
   \<and> prefix GS_SCHEMA ''gs://bucket''
   \<and> CHR ''/'' \<notin> set (drop (length GS_SCHEMA) ''gs://bucket'')
   \<and> drs_info_from_martha_v2 ''drs://x''
        (JObj [(''dos'', JObj [(''data_object'', JObj [(''urls'',
           JArr [JObj [(''url'', JStr ''s3://x'')], JObj [(''url'', JStr ''gs://bucket'')]])])])])
       = Inl ValueError"
  using legacy_no_key_value_error
    [where d = "[(''dos'', JObj [(''data_object'', JObj [(''urls'',
           JArr [JObj [(''url'', JStr ''s3://x'')], JObj [(''url'', JStr ''gs://bucket'')]])])])]"
       and dos = "[(''data_object'', JObj [(''urls'',
           JArr [JObj [(''url'', JStr ''s3://x'')], JObj [(''url'', JStr ''gs://bucket'')]])])]"
       and dobj = "[(''urls'',
           JArr [JObj [(''url'', JStr ''s3://x'')], JObj [(''url'', JStr ''gs://bucket'')]])]"
       and pre = "[JObj [(''url'', JStr ''s3://x'')]]"
       and c = "[(''url'', JStr ''gs://bucket'')]"
       and post = "[]"
       and u = "''gs://bucket''"
       and drs_url = "''drs://x''"]
  by (simp add: GS_SCHEMA_def)



subsection \<open>The current response\<close>

text \<open>
  C1, as the code has it. A current response without \<^verbatim>\<open>gsUri\<close> fails with
  \<^verbatim>\<open>DRSResolutionError\<close>. With \<^verbatim>\<open>gsUri\<close> present, the \<^verbatim>\<open>DRSInfo\<close> is read off the flat
  fields: bucket from \<^verbatim>\<open>bucket\<close>, key from \<^verbatim>\<open>name\<close>, name from \<^verbatim>\<open>fileName\<close>, size from
  \<^verbatim>\<open>size\<close>, updated from \<^verbatim>\<open>timeUpdated\<close>, each \<^verbatim>\<open>None\<close> when the field is missing;
  \<^verbatim>\<open>gsUri\<close> itself is only tested for presence, never split. The only other failure is
  that of reading the credentials.
\<close>

theorem current_shape_fields:
  "(map_of d ''gsUri'' = None \<longrightarrow>
      drs_info_from_martha_v3 drs_url (JObj d) = Inl (DRSResolutionError (no_gs_url_msg drs_url)))
   \<and> (map_of d ''gsUri'' \<noteq> None \<longrightarrow>
      drs_info_from_martha_v3 drs_url (JObj d)
        = ebind (get_drs_gs_creds (JObj d)) (\<lambda>creds.
            Inr \<lparr>credentials = creds, access_url = flat_field d ''accessUrl'',
                 bucket_name = flat_field d ''bucket'', key = flat_field d ''name'',
                 name = flat_field d ''fileName'', size_field = flat_field d ''size'',
                 updated = flat_field d ''timeUpdated''\<rparr>))"
  by (auto simp: drs_info_from_martha_v3_def ebind_simps flat_field_def ebind_def split: sum.splits)

theorem current_shape_fields_witness:
  "drs_info_from_martha_v3 ''drs://x'' current_response
     = Inr \<lparr>credentials = JNull, access_url = JNull, bucket_name = JStr ''bucket'',
            key = JStr ''dir/obj.txt'', name = JStr ''obj.txt'', size_field = JInt 7,
            updated = JStr ''2020-01-01''\<rparr>
   \<and> drs_info_from_martha_v3 ''drs://x'' (JObj [(''bucket'', JStr ''bucket'')])
     = Inl (DRSResolutionError (no_gs_url_msg ''drs://x''))"
  using current_shape_fields
    [of "[(''gsUri'', JStr ''gs://bucket/dir/obj.txt''), (''bucket'', JStr ''bucket''),
           (''name'', JStr ''dir/obj.txt''), (''fileName'', JStr ''obj.txt''),
           (''size'', JInt 7), (''timeUpdated'', JStr ''2020-01-01'')]" "''drs://x''"]
    current_shape_fields [of "[(''bucket'', JStr ''bucket'')]" "''drs://x''"]
  by (simp add: current_response_def flat_field_def get_drs_gs_creds_def ebind_simps)

text \<open>
  C1, as the claim has it, fails: this response has a \<^verbatim>\<open>gsUri\<close> that splits into
  \<^verbatim>\<open>bucket\<close> and \<^verbatim>\<open>key\<close>, and the \<^verbatim>\<open>DRSInfo\<close> has the bucket and key of the fields
  \<^verbatim>\<open>bucket\<close> and \<^verbatim>\<open>name\<close> instead.
\<close>

theorem current_shape_location_not_split:
  "drs_info_from_martha_v3 ''drs://x''
     (JObj [(''gsUri'', JStr ''gs://bucket/key''), (''bucket'', JStr ''other''),
            (''name'', JStr ''obj'')])
     = Inr \<lparr>credentials = JNull, access_url = JNull, bucket_name = JStr ''other'',
            key = JStr ''obj'', name = JNull, size_field = JNull, updated = JNull\<rparr>
   \<and> parse_gs_url ''gs://bucket/key'' = Inr (''bucket'', ''key'')"
  by (simp add: drs_info_from_martha_v3_def get_drs_gs_creds_def ebind_simps parse_gs_url_def
        GS_SCHEMA_def split1_def unpack2_def)

subsection \<open>Destinations in a bucket\<close>

lemma last_rsplit1_slash: "last (rsplit1 CHR ''/'' k) = last_segment k"
proof (cases "CHR ''/'' \<in> set k")
  case True
  then show ?thesis by (simp add: rsplit1_def last_segment_def)
next
  case False
  then show ?thesis
    by (simp add: rsplit1_def last_segment_def takeWhile_no_sep)
qed

lemma basename_of_name: "name info = JStr n \<Longrightarrow> n \<noteq> [] \<Longrightarrow> basename_of info = Inr (JStr n)"
  by (simp add: basename_of_def)

lemma basename_of_key:
  "name info = JNull \<or> name info = JStr [] \<Longrightarrow> key info = JStr k \<Longrightarrow>
   basename_of info = Inr (JStr (last_segment k))"
  by (auto simp: basename_of_def last_rsplit1_slash)

lemma basename_of_nothing:
  "name info = JNull \<Longrightarrow> key info = JNull \<Longrightarrow> basename_of info = Inl AttributeError"
  by (simp add: basename_of_def)

text \<open>
  C4. Let a destination URL parse (by \<^verbatim>\<open>_bucket_name_and_key\<close>, which every URL that
  starts with \<^verbatim>\<open>gs://\<close> does, see \<open>bucket_name_and_key_split\<close>) into a bucket and a key
  \<open>pfx\<close>. If \<open>pfx\<close> is not empty and does not end with \<^verbatim>\<open>/\<close>, the target is the bucket
  and \<open>pfx\<close> as it is. Otherwise one trailing \<^verbatim>\<open>/\<close> is stripped and a final component is
  added: the name of the \<^verbatim>\<open>DRSInfo\<close> when it has one, and the last \<^verbatim>\<open>/\<close>-separated segment
  of its key when the name is absent (\<^verbatim>\<open>None\<close> or the empty string, which Python's
  \<^verbatim>\<open>or\<close> treats alike).
\<close>

theorem resolve_bucket_target_rule:
  assumes "bucket_name_and_key url = Inr (bucket, pfx)"
  shows "(pfx \<noteq> [] \<and> \<not> endswith pfx ''/'' \<longrightarrow>
            resolve_bucket_target repr url info = Inr (bucket, JStr pfx))
       \<and> ((pfx = [] \<or> endswith pfx ''/'') \<and> name info = JStr n \<and> n \<noteq> [] \<longrightarrow>
            resolve_bucket_target repr url info
              = Inr (bucket, JStr (join_key (strip_sep pfx) n)))
       \<and> ((pfx = [] \<or> endswith pfx ''/'') \<and> (name info = JNull \<or> name info = JStr [])
            \<and> key info = JStr k \<longrightarrow>
            resolve_bucket_target repr url info
              = Inr (bucket, JStr (join_key (strip_sep pfx) (last_segment k))))"
proof -
  have verbatim: "resolve_bucket_target repr url info = Inr (bucket, JStr pfx)"
    if "pfx \<noteq> []" "\<not> endswith pfx ''/''"
    using that assms by (simp add: resolve_bucket_target_def ebind_simps)
  have dir: "resolve_bucket_target repr url info = Inr (bucket, JStr (join_key (strip_sep pfx) b))"
    if "pfx = [] \<or> endswith pfx ''/''" "basename_of info = Inr (JStr b)" for b
    using that assms
    by (auto simp: resolve_bucket_target_def ebind_simps Let_def join_key_def strip_sep_def
          py_str_def)
  show ?thesis
    using verbatim dir basename_of_name basename_of_key by blast
qed

theorem resolve_bucket_target_rule_witness:
  "resolve_bucket_target (\<lambda>v. []) ''gs://dst/'' example_info = Inr (''dst'', JStr ''f.txt'')
   \<and> resolve_bucket_target (\<lambda>v. []) ''gs://dst/sub/path.txt'' example_info
       = Inr (''dst'', JStr ''sub/path.txt'')
   \<and> resolve_bucket_target (\<lambda>v. []) ''gs://dst/sub/'' (example_info\<lparr>name := JNull\<rparr>)
       = Inr (''dst'', JStr ''sub/obj.txt'')"
proof -
  have p1: "bucket_name_and_key ''gs://dst/'' = Inr (''dst'', [])"
    by (simp add: bucket_name_and_key_split)
  have p2: "bucket_name_and_key ''gs://dst/sub/path.txt'' = Inr (''dst'', ''sub/path.txt'')"
    by (simp add: bucket_name_and_key_split)
  have p3: "bucket_name_and_key ''gs://dst/sub/'' = Inr (''dst'', ''sub/'')"
    by (simp add: bucket_name_and_key_split)
  from resolve_bucket_target_rule [OF p1, where info = example_info and n = "''f.txt''"]
  have "resolve_bucket_target (\<lambda>v. []) ''gs://dst/'' example_info = Inr (''dst'', JStr ''f.txt'')"
    by (simp add: example_info_def join_key_def strip_sep_def endswith_def)
  moreover from resolve_bucket_target_rule [OF p2, where info = example_info]
  have "resolve_bucket_target (\<lambda>v. []) ''gs://dst/sub/path.txt'' example_info
          = Inr (''dst'', JStr ''sub/path.txt'')"
    by (simp add: endswith_def)
  moreover from resolve_bucket_target_rule
    [OF p3, where info = "example_info\<lparr>name := JNull\<rparr>" and k = "''dir/obj.txt''"]
  have "resolve_bucket_target (\<lambda>v. []) ''gs://dst/sub/'' (example_info\<lparr>name := JNull\<rparr>)
          = Inr (''dst'', JStr ''sub/obj.txt'')"
    by (simp add: example_info_def join_key_def strip_sep_def endswith_def last_segment_def)
  ultimately show ?thesis by simp
qed

subsection \<open>Identifiers that are no DRS URIs\<close>

text \<open>
  C6. For an identifier that does not start with \<^verbatim>\<open>drs://\<close>, \<^verbatim>\<open>get_drs_info\<close> fails on
  its assertion and leaves the world as it was: no token is asked for, nothing is sent,
  nothing is logged.
\<close>

theorem non_drs_identifier_fails_first:
  "\<not> prefix ''drs://'' drs_url \<Longrightarrow>
   get_drs_info e drs_url w = (Inl (AssertionError expected_drs_msg), w)"
  by (simp add: get_drs_info_def sthrow_def)

theorem non_drs_identifier_fails_first_witness:
  "\<not> prefix ''drs://'' ''gs://bucket/key''
   \<and> get_drs_info example_env ''gs://bucket/key'' world0
       = (Inl (AssertionError expected_drs_msg), world0)"
  using non_drs_identifier_fails_first [of "''gs://bucket/key''" example_env world0]
  by simp

subsection \<open>Batch copy\<close>

lemma validates_string: "validates (Schema ''string'' None [] []) v = (\<exists>s. v = JStr s)"
  by (cases v) simp_all

lemma validates_entry:
  "validates (Schema ''object'' None
          [(''drs_uri'', Schema ''string'' None [] []), (''dst'', Schema ''string'' None [] [])]
          [''drs_uri'', ''dst'']) = well_formed_entry"
proof
  fix v
  show "validates (Schema ''object'' None
          [(''drs_uri'', Schema ''string'' None [] []), (''dst'', Schema ''string'' None [] [])]
          [''drs_uri'', ''dst'']) v = well_formed_entry v"
  proof (cases v)
    case (JObj kvs)
    show ?thesis unfolding JObj
      by (auto simp: validates_string split: option.splits json.splits)
  qed simp_all
qed

text \<open>What \<^verbatim>\<open>manifest_schema\<close> accepts is what the spec calls a manifest.\<close>

lemma validates_manifest: "validates manifest_schema m = well_formed_manifest m"
proof (cases m)
  case (JArr items)
  have "validates manifest_schema (JArr items)
          = list_all (validates (Schema ''object'' None
              [(''drs_uri'', Schema ''string'' None [] []), (''dst'', Schema ''string'' None [] [])]
              [''drs_uri'', ''dst''])) items"
    unfolding manifest_schema_def by (subst validates.simps) simp
  then show ?thesis unfolding JArr by (simp only: validates_entry well_formed_manifest.simps)
qed (simp_all add: manifest_schema_def)

text \<open>
  C7. A manifest that is not a list of records with a string \<^verbatim>\<open>drs_uri\<close> and a string
  \<^verbatim>\<open>dst\<close> each, and so any manifest with an entry that lacks \<^verbatim>\<open>dst\<close> or \<^verbatim>\<open>drs_uri\<close>, is
  rejected by \<^verbatim>\<open>copy_batch\<close> with a validation error and the world is as it was: no job
  is put on the queue, requester pays is not enabled, nothing is sent.
\<close>

theorem malformed_manifest_rejected:
  "(\<not> well_formed_manifest m \<longrightarrow>
      copy_batch e m indicator_type workspace_name workspace_namespace w = (Inl ValidationError, w))
   \<and> (m = JArr items \<and> JObj kvs \<in> set items
         \<and> (map_of kvs ''dst'' = None \<or> map_of kvs ''drs_uri'' = None) \<longrightarrow>
      copy_batch e m indicator_type workspace_name workspace_namespace w = (Inl ValidationError, w))"
proof -
  have rej: "copy_batch e m indicator_type workspace_name workspace_namespace w
               = (Inl ValidationError, w)" if "\<not> well_formed_manifest m"
    using that by (simp add: copy_batch_def validates_manifest sthrow_def)
  have "\<not> well_formed_manifest (JArr items)"
    if "JObj kvs \<in> set items" "map_of kvs ''dst'' = None \<or> map_of kvs ''drs_uri'' = None"
  proof
    assume "well_formed_manifest (JArr items)"
    then have "\<forall>x\<in>set items. well_formed_entry x" by (simp add: list_all_iff)
    with that(1) have "well_formed_entry (JObj kvs)" by blast
    with that(2) show False by auto
  qed
  with rej show ?thesis by blast
qed

theorem malformed_manifest_rejected_witness:
  "copy_batch example_env
     (JArr [JObj [(''drs_uri'', JStr ''drs://a''), (''dst'', JStr ''gs://dst/'')],
            JObj [(''drs_uri'', JStr ''drs://b'')]])
     bar (Some ''workspace'') (Some ''project'') world0
   = (Inl ValidationError, world0)"
  using malformed_manifest_rejected
    [where m = "JArr [JObj [(''drs_uri'', JStr ''drs://a''), (''dst'', JStr ''gs://dst/'')],
                      JObj [(''drs_uri'', JStr ''drs://b'')]]"
       and items = "[JObj [(''drs_uri'', JStr ''drs://a''), (''dst'', JStr ''gs://dst/'')],
                     JObj [(''drs_uri'', JStr ''drs://b'')]]"
       and kvs = "[(''drs_uri'', JStr ''drs://b'')]"
       and e = example_env and indicator_type = bar
       and workspace_name = "Some ''workspace''" and workspace_namespace = "Some ''project''"
       and w = world0]
  by simp

subsection \<open>The resolver client on a status that is not 200\<close>

lemma error_details_no_response:
  "map_of body ''response'' = None \<Longrightarrow> error_details repr (JObj body) = Inr []"
  by (simp add: error_details_def ebind_simps)

lemma error_details_no_text:
  "map_of body ''response'' = Some (JObj r) \<Longrightarrow> map_of r ''text'' = None \<Longrightarrow>
   error_details repr (JObj body) = Inr []"
  by (simp add: error_details_def ebind_simps)

lemma error_details_text:
  "map_of body ''response'' = Some (JObj r) \<Longrightarrow> map_of r ''text'' = Some (JStr t) \<Longrightarrow>
   error_details repr (JObj body) = Inr (''Error: '' @ t)"
  by (simp add: error_details_def ebind_simps py_str_def)

lemma get_drs_non_200:
  assumes "get_access_token e (trace w) = Inr tok"
    and "http_post e (trace w @ [GetAccessToken, Log DEBUG (resolving_msg e drs_url)])
           (MARTHA_URL e) (bearer_headers tok) (JObj [(''url'', JStr drs_url)]) = Inr resp"
    and "status_code resp \<noteq> 200"
  shows "fst (get_drs e drs_url w)
           = ebind (response_json resp) (\<lambda>rj.
             ebind (error_details (py_repr e) rj) (\<lambda>details.
               Inl (DRSResolutionError (unexpected_response_msg (status_code resp) details))))"
  using assms
  by (simp add: get_drs_def sbind_def call_def emit_def lift_def sthrow_def ebind_def
        split: sum.splits)

text \<open>
  C5. The claim holds where the body of the response is a JSON object whose
  \<^verbatim>\<open>response\<close>, if it has one, is an object (\<open>get_drs_non_200\<close> with the three lemmas
  on \<open>error_details\<close>). It fails on other bodies: here the resolver's gateway answers 502
  with an HTML page, \<^verbatim>\<open>resp.json()\<close> raises, and \<^verbatim>\<open>get_drs\<close> ends in that exception
  and not in \<^verbatim>\<open>DRSResolutionError\<close> with the status and an empty error text.
\<close>

theorem get_drs_bad_gateway:
  "fst (get_drs bad_gateway_env ''drs://x'' world0) = Inl JSONDecodeError"
  by (simp add: get_drs_def bad_gateway_env_def example_env_def world0_def sbind_def call_def
        emit_def lift_def sthrow_def response_json_def)

text \<open>
  Likewise for a JSON body whose \<^verbatim>\<open>response\<close> is a string that contains \<^verbatim>\<open>text\<close>: the
  \<^verbatim>\<open>in\<close> test is Python's substring test and succeeds, and indexing the string with
  \<^verbatim>\<open>'text'\<close> raises \<^verbatim>\<open>TypeError\<close>.
\<close>

lemma get_drs_response_not_object:
  assumes "get_access_token e (trace w) = Inr tok"
    and "http_post e (trace w @ [GetAccessToken, Log DEBUG (resolving_msg e drs_url)])
           (MARTHA_URL e) (bearer_headers tok) (JObj [(''url'', JStr drs_url)])
         = Inr \<lparr>status_code = 500, content = c,
                json_body = Some (JObj [(''response'', JStr ''some text'')])\<rparr>"
  shows "fst (get_drs e drs_url w) = Inl TypeError"
  using get_drs_non_200 [OF assms(1) assms(2)]
  by (simp add: response_json_def error_details_def ebind_simps sublist_code)


subsection \<open>The copy worker\<close>

lemma resolutions_append: "resolutions u (t @ t') = resolutions u t + resolutions u t'"
  by (simp add: resolutions_def)

lemma get_drs_resolutions:
  "resolutions u (trace (snd (get_drs e u w)))
     = resolutions u (trace w) + (case get_access_token e (trace w) of Inl err \<Rightarrow> 0 | Inr tok \<Rightarrow> 1)"
  by (simp add: get_drs_def sbind_def call_def emit_def lift_def sthrow_def sreturn_def
        resolutions_def split: sum.splits prod.splits)

lemma get_drs_info_world:
  "prefix ''drs://'' u \<Longrightarrow> snd (get_drs_info e u w) = snd (get_drs e u w)"
  by (cases "get_drs e u w")
     (auto simp: get_drs_info_def sbind_def lift_def split: sum.splits)

lemma get_drs_info_resolutions:
  "prefix ''drs://'' u \<Longrightarrow>
   resolutions u (trace (snd (get_drs_info e u w)))
     = resolutions u (trace w) + (case get_access_token e (trace w) of Inl err \<Rightarrow> 0 | Inr tok \<Rightarrow> 1)"
  by (simp add: get_drs_info_world get_drs_resolutions)

lemma get_drs_token:
  "fst (get_drs e u w) = Inr resp \<Longrightarrow> \<exists>tok. get_access_token e (trace w) = Inr tok"
  by (cases "get_access_token e (trace w)")
     (simp_all add: get_drs_def sbind_def call_def)

lemma get_drs_info_returns:
  assumes "fst (get_drs_info e u w) = Inr info"
  shows "prefix ''drs://'' u \<and> (\<exists>tok. get_access_token e (trace w) = Inr tok)"
proof -
  from assms have p: "prefix ''drs://'' u"
    by (auto simp: get_drs_info_def sthrow_def split: if_splits)
  with assms obtain resp where "fst (get_drs e u w) = Inr resp"
    by (cases "get_drs e u w"; cases "fst (get_drs e u w)")
       (auto simp: get_drs_info_def sbind_def)
  from get_drs_token [OF this] p show ?thesis by simp
qed

lemma resolve_local_target_world: "snd (resolve_local_target e p info w) = w"
  by (simp add: resolve_local_target_def split: sum.splits json.splits)

lemma do_copy_drs_local:
  assumes "\<not> prefix ''gs://'' dst" and "fst (get_drs_info e u w) = Inr info"
  shows "resolutions u (trace (snd (do_copy_drs e u dst mt ind wn wns w)))
           = resolutions u (trace (snd (get_drs_info e u (snd (get_drs_info e u w)))))"
proof -
  obtain w1 where w1: "get_drs_info e u w = (Inr info, w1)"
    using assms(2) by (cases "get_drs_info e u w") simp
  obtain r2 w2 where w2: "get_drs_info e u w1 = (r2, w2)"
    by (cases "get_drs_info e u w1")
  show ?thesis
  proof (cases r2)
    case (Inl err)
    with w1 w2 assms(1) show ?thesis
      by (simp add: do_copy_drs_def sbind_def get_drs_blob_def sreturn_def)
  next
    case (Inr info2)
    obtain r3 where r3: "resolve_local_target e dst info2 w2 = (r3, w2)"
      using resolve_local_target_world [of e dst info2 w2]
      by (cases "resolve_local_target e dst info2 w2") simp
    from Inr w1 w2 r3 assms(1) show ?thesis
      by (auto simp: do_copy_drs_def sbind_def get_drs_blob_def sreturn_def lift_def call_def
            resolutions_def split: sum.splits)
  qed
qed

lemma do_copy_drs_bucket:
  assumes "prefix ''gs://'' dst"
  shows "resolutions u (trace (snd (do_copy_drs e u dst mt ind wn wns w)))
           = resolutions u (trace (snd (get_drs_info e u w)))"
proof -
  obtain r1 w1 where w1: "get_drs_info e u w = (r1, w1)"
    by (cases "get_drs_info e u w")
  with assms show ?thesis
    by (auto simp: do_copy_drs_def sbind_def get_drs_blob_def sreturn_def lift_def call_def
          resolutions_def split: sum.splits prod.splits)
qed

text \<open>
  C9. \<^verbatim>\<open>_do_copy_drs\<close> asks the resolver for the identifier of the job once more when
  the destination does not start with \<^verbatim>\<open>gs://\<close>: if the first resolution returns (and
  the token provider then gives a token again), the job has sent two POSTs for the same
  identifier. With a destination that starts with \<^verbatim>\<open>gs://\<close>, a job for a DRS URI sends
  exactly one (given a token).
\<close>

theorem local_destination_resolves_twice:
  "(\<not> prefix ''gs://'' dst \<and> fst (get_drs_info e drs_uri w) = Inr info
      \<and> get_access_token e (trace (snd (get_drs_info e drs_uri w))) = Inr tok \<longrightarrow>
      resolutions drs_uri (trace (snd (do_copy_drs e drs_uri dst multipart_threshold
          indicator_type workspace_name workspace_namespace w)))
        = resolutions drs_uri (trace w) + 2)
   \<and> (prefix ''gs://'' dst \<and> prefix ''drs://'' drs_uri
      \<and> get_access_token e (trace w) = Inr tok' \<longrightarrow>
      resolutions drs_uri (trace (snd (do_copy_drs e drs_uri dst multipart_threshold
          indicator_type workspace_name workspace_namespace w)))
        = resolutions drs_uri (trace w) + 1)"
proof (intro conjI impI)
  assume a: "\<not> prefix ''gs://'' dst \<and> fst (get_drs_info e drs_uri w) = Inr info
      \<and> get_access_token e (trace (snd (get_drs_info e drs_uri w))) = Inr tok"
  then have ret: "fst (get_drs_info e drs_uri w) = Inr info" by simp
  from get_drs_info_returns [OF ret] obtain tok0
    where p: "prefix ''drs://'' drs_uri" and t0: "get_access_token e (trace w) = Inr tok0"
    by blast
  from a have "resolutions drs_uri (trace (snd (do_copy_drs e drs_uri dst multipart_threshold
          indicator_type workspace_name workspace_namespace w)))
        = resolutions drs_uri (trace (snd (get_drs_info e drs_uri (snd (get_drs_info e drs_uri w)))))"
    by (simp add: do_copy_drs_local)
  also have "\<dots> = resolutions drs_uri (trace (snd (get_drs_info e drs_uri w))) + 1"
    using a by (simp add: get_drs_info_resolutions [OF p])
  also have "\<dots> = resolutions drs_uri (trace w) + 2"
    using t0 by (simp add: get_drs_info_resolutions [OF p])
  finally show "resolutions drs_uri (trace (snd (do_copy_drs e drs_uri dst multipart_threshold
          indicator_type workspace_name workspace_namespace w)))
        = resolutions drs_uri (trace w) + 2" .
next
  assume a: "prefix ''gs://'' dst \<and> prefix ''drs://'' drs_uri
      \<and> get_access_token e (trace w) = Inr tok'"
  then show "resolutions drs_uri (trace (snd (do_copy_drs e drs_uri dst multipart_threshold
          indicator_type workspace_name workspace_namespace w)))
        = resolutions drs_uri (trace w) + 1"
    by (simp add: do_copy_drs_bucket get_drs_info_resolutions)
qed


theorem local_destination_resolves_twice_witness:
  "resolutions ''drs://x'' (trace (snd (do_copy_drs example_env ''drs://x'' ''/tmp/'' 1024 bar
       None None world0))) = 2
   \<and> resolutions ''drs://x'' (trace (snd (do_copy_drs example_env ''drs://x'' ''gs://dst/'' 1024 bar
       None None world0))) = 1"
proof -
  have h: "fst (get_drs_info example_env ''drs://x'' world0)
             = Inr \<lparr>credentials = JNull, access_url = JNull, bucket_name = JStr ''bucket'',
                    key = JStr ''dir/obj.txt'', name = JStr ''obj.txt'', size_field = JInt 7,
                    updated = JStr ''2020-01-01''\<rparr>"
    by (simp add: get_drs_info_def get_drs_def sbind_def call_def emit_def lift_def sreturn_def
          example_env_def world0_def response_json_def current_response_def
          drs_info_from_martha_v3_def get_drs_gs_creds_def ebind_simps)
  have t: "get_access_token example_env tr = Inr ''token''" for tr
    by (simp add: example_env_def)
  note r = local_destination_resolves_twice [where e = example_env and drs_uri = "''drs://x''"
      and w = world0 and multipart_threshold = 1024 and indicator_type = bar
      and workspace_name = None and workspace_namespace = None
      and tok = "''token''" and tok' = "''token''"
      and info = "\<lparr>credentials = JNull, access_url = JNull, bucket_name = JStr ''bucket'',
                    key = JStr ''dir/obj.txt'', name = JStr ''obj.txt'', size_field = JInt 7,
                    updated = JStr ''2020-01-01''\<rparr>"]
  from r [where dst = "''/tmp/''"] h t
  have "resolutions ''drs://x'' (trace (snd (do_copy_drs example_env ''drs://x'' ''/tmp/'' 1024 bar
       None None world0))) = resolutions ''drs://x'' (trace world0) + 2"
    by simp
  moreover from r [where dst = "''gs://dst/''"] t
  have "resolutions ''drs://x'' (trace (snd (do_copy_drs example_env ''drs://x'' ''gs://dst/'' 1024
       bar None None world0))) = resolutions ''drs://x'' (trace world0) + 1"
    by simp
  ultimately show ?thesis by (simp add: world0_def resolutions_def)
qed

subsection \<open>Requester pays\<close>



lemma bind_args_defaults: "bind_args e ([], []) = Inr (WORKSPACE_NAME e, WORKSPACE_GOOGLE_PROJECT e)"
  by (simp add: bind_args_def)
















end
